theory Spec2Isabelle
  imports Main
begin

section \<open>Go values of \<open>pkg/smokescreen/config.go\<close>\<close>

text \<open>
  A Go \<open>string\<close> and a Go \<open>[]byte\<close> are both sequences of bytes, and \<open>string(b)\<close> keeps
  every byte, so both are HOL strings here and the conversion is the identity. Map keys
  of the registry and of the revocation table are such byte strings.
\<close>

type_synonym bytes = string

text \<open>
  The \<open>error\<close> interface. \<open>missingRoleError\<close> is the struct of lines 44 to 46 that wraps
  \<open>errors.New(s)\<close>; every other error (from the file system, the parsers, the signature
  check, \<open>errors.New\<close>, \<open>fmt.Errorf\<close>) is an \<open>errorString\<close>.
\<close>

datatype error = missingRoleError string | errorString string

definition MissingRoleError :: "string \<Rightarrow> error" where
  "MissingRoleError s = missingRoleError s"

definition IsMissingRoleError :: "error \<Rightarrow> bool" where
  "IsMissingRoleError err = (case err of missingRoleError _ \<Rightarrow> True | errorString _ \<Rightarrow> False)"

text \<open>
  A call either returns or panics. The two run-time panics this file can raise are the
  dereference of a nil pointer and the assignment to an entry of a nil map.
\<close>

datatype panic = NilPointerDereference | AssignmentToNilMap

datatype 'a outcome = Panic panic | Return 'a

text \<open>
  A Go map value is nil or a map. Indexing a nil map finds nothing; assigning into it
  panics, which the functions below write out where they assign.
\<close>

type_synonym ('k, 'v) gomap = "('k \<rightharpoonup> 'v) option"

definition index :: "('k, 'v) gomap \<Rightarrow> 'k \<Rightarrow> 'v option" where
  "index m k = (case m of None \<Rightarrow> None | Some f \<Rightarrow> f k)"

subsection \<open>Certificates, revocation lists, PEM blocks\<close>

record Certificate =
  Raw :: bytes
  SubjectKeyId :: bytes
  Subject_CommonName :: string

record Extension =
  Id :: "int list"
  Critical :: bool
  Value :: bytes

record TBSCertificateList =
  Extensions :: "Extension list"
  RevokedCertificates :: "int list"

record CertificateList =
  TBSCertList :: TBSCertificateList
  SignatureValue :: bytes

text \<open>RFC 5280, 4.2.1.1 (lines 81 to 84): the key identifier is optional, and nil when absent.\<close>

record authKeyId =
  Id :: bytes

record pem_Block =
  Type :: string
  Headers :: "(string \<times> string) list"
  Bytes :: bytes

subsection \<open>TLS configuration and requests\<close>

datatype ClientAuthType =
  NoClientCert | RequestClientCert | RequireAnyClientCert
  | VerifyClientCertIfGiven | RequireAndVerifyClientCert

type_synonym CertPool = "Certificate list"

type_synonym tls_Certificate = bytes

record tls_Config =
  Certificates :: "tls_Certificate list"
  ClientAuth :: ClientAuthType
  ClientCAs :: "CertPool option"

record ConnectionState =
  PeerCertificates :: "Certificate list"

text \<open>
  \<open>http.Request\<close>: \<open>Header\<close> is a map from header names to the list of their values,
  \<open>TLS\<close> is a pointer that is nil on a connection without TLS.
\<close>

record Request =
  Header :: "string \<rightharpoonup> string list"
  TLS :: "ConnectionState option"

datatype Logger = Logger

datatype Regexp = hostPortPattern

text \<open>
  The fields of \<open>Config\<close> that \<open>Init\<close>, \<open>SetupCrls\<close>, \<open>SetupTls\<close> and
  \<open>populateClientCaMap\<close> read or write. \<open>RoleFromRequest\<close> is a function value; a Go
  \<open>(string, error)\<close> result is a sum, the error on the left.
\<close>

record Config =
  TlsConfig :: "tls_Config option"
  CrlByAuthorityKeyId :: "(bytes, CertificateList) gomap"
  RoleFromRequest :: "(Request \<Rightarrow> (error + string) outcome) option"
  clientCasBySubjectKeyId :: "(bytes, Certificate) gomap"
  Log :: "Logger option"
  hostExtractExpr :: "Regexp option"

subsection \<open>The standard library, as parameters\<close>

text \<open>
  The functions of the Go standard library that the file calls are parameters of the
  model, with Go's result shapes:
  \<^item> \<open>ioutil.ReadFile\<close> returns the bytes and an error or nil;
  \<open>x509.ParseCRL\<close> returns a pointer (nil or a list) and an error or nil;
  \<^item> \<open>asn1.Unmarshal\<close> into an \<open>authKeyId\<close>, \<open>x509.ParseCertificate\<close> and
  \<open>tls.LoadX509KeyPair\<close> return an error or a value (the caller tests the error
  before it touches the value);
  \<^item> \<open>Certificate.CheckCRLSignature\<close> returns an error or nil;
  \<^item> \<open>pem.Decode\<close> returns a block (nil or a block) and the rest of the input;
  \<^item> \<open>CertPool.AppendCertsFromPEM\<close> returns the grown pool and whether it grew.
\<close>

record lib =
  ReadFile :: "string \<Rightarrow> bytes \<times> error option"
  ParseCRL :: "bytes \<Rightarrow> CertificateList option \<times> error option"
  Unmarshal :: "bytes \<Rightarrow> error + authKeyId"
  CheckCRLSignature :: "Certificate \<Rightarrow> CertificateList \<Rightarrow> error option"
  Decode :: "bytes \<Rightarrow> pem_Block option \<times> bytes"
  ParseCertificate :: "bytes \<Rightarrow> error + Certificate"
  LoadX509KeyPair :: "string \<Rightarrow> string \<Rightarrow> error + tls_Certificate"
  AppendCertsFromPEM :: "CertPool \<Rightarrow> bytes \<Rightarrow> CertPool \<times> bool"

section \<open>Identity resolution: \<open>Init\<close>\<close>

text \<open>
  The closure of lines 106 to 112. \<open>req.TLS.PeerCertificates\<close> dereferences \<open>req.TLS\<close>.
\<close>

definition roleFromPeerCertificate :: "Request \<Rightarrow> (error + string) outcome" where
  "roleFromPeerCertificate req =
     (case TLS req of
        None \<Rightarrow> Panic NilPointerDereference
      | Some cs \<Rightarrow>
          if length (PeerCertificates cs) = 0
          then Return (Inl (MissingRoleError ''client did not provide certificate''))
          else Return (Inr (Subject_CommonName (PeerCertificates cs ! 0))))"

text \<open>The closure of lines 114 to 123. A header that is absent indexes to a nil slice.\<close>

definition roleFromHeader :: "Request \<Rightarrow> (error + string) outcome" where
  "roleFromHeader req =
     (let idHeader = (case Header req ''X-Smokescreen-Role'' of None \<Rightarrow> [] | Some vs \<Rightarrow> vs)
      in if length idHeader = 0
         then Return (Inl (MissingRoleError ''client did not send 'X-Smokescreen-Role' header''))
         else if length idHeader > 1
         then Return (Inl (MissingRoleError ''client sent multiple 'X-Smokescreen-Role' headers''))
         else Return (Inr (idHeader ! 0)))"

text \<open>
  The test of line 105: \<open>config.TlsConfig != nil && config.TlsConfig.ClientCAs != nil\<close>.
\<close>

definition clientCAsSet :: "Config \<Rightarrow> bool" where
  "clientCAsSet config =
     (case TlsConfig config of None \<Rightarrow> False | Some t \<Rightarrow> ClientCAs t \<noteq> None)"

text \<open>
  \<open>Init\<close> (lines 86 to 127). \<open>regexp.Compile\<close> is applied to a constant pattern that is
  well formed, so it returns no error and \<open>Init\<close> returns nil.
\<close>

definition Init :: "Config \<Rightarrow> error option \<times> Config" where
  "Init config =
     (let config = (if CrlByAuthorityKeyId config = None
                    then config\<lparr>CrlByAuthorityKeyId := Some Map.empty\<rparr> else config);
          config = (if clientCasBySubjectKeyId config = None
                    then config\<lparr>clientCasBySubjectKeyId := Some Map.empty\<rparr> else config);
          config = (if Log config = None then config\<lparr>Log := Some Logger\<rparr> else config);
          config = config\<lparr>hostExtractExpr := Some hostPortPattern\<rparr>
      in if clientCAsSet config
         then (None, config\<lparr>RoleFromRequest := Some roleFromPeerCertificate\<rparr>)
         else (None, config\<lparr>RoleFromRequest := Some roleFromHeader\<rparr>))"

section \<open>Revocation lists: \<open>SetupCrls\<close>\<close>

text \<open>
  The inner loop of lines 147 to 161 over the extensions of the list. The issuer id
  starts as the empty string. At the first extension with the object identifier 2.5.29.35
  whose value unmarshals, the loop stores the key identifier (empty when the optional
  field is absent) and breaks; at one whose value does not unmarshal it goes on to the
  next extension. \<open>ObjectIdentifier.Equal\<close> compares the lengths and the components.
\<close>

definition extensionOid :: "int list" where
  "extensionOid = [2, 5, 29, 35]"

fun crlIssuerId :: "lib \<Rightarrow> Extension list \<Rightarrow> string" where
  "crlIssuerId w [] = []"
| "crlIssuerId w (v # vs) =
     (if Extension.Id v = extensionOid
      then (case Unmarshal w (Value v) of
              Inl err \<Rightarrow> crlIssuerId w vs
            | Inr crlAuthorityKey \<Rightarrow> authKeyId.Id crlAuthorityKey)
      else crlIssuerId w vs)"

text \<open>
  The loop of lines 135 to 186 over the files, on the configuration as it stands when
  the loop is entered. A read error returns it (line 138). A parse error is printed
  (line 143) and the body goes on with the pointer \<open>x509.ParseCRL\<close> returned: line 149
  dereferences it. Each \<open>continue\<close> of lines 164, 173 and 180 is the recursive call on the
  unchanged configuration; line 184 assigns into the table.
\<close>

fun SetupCrls_loop :: "lib \<Rightarrow> Config \<Rightarrow> string list \<Rightarrow> (error option \<times> Config) outcome" where
  "SetupCrls_loop w config [] = Return (None, config)"
| "SetupCrls_loop w config (crlFile # crlFiles) =
     (case ReadFile w crlFile of
        (crlBytes, Some err) \<Rightarrow> Return (Some err, config)
      | (crlBytes, None) \<Rightarrow>
          (case ParseCRL w crlBytes of
             (None, err) \<Rightarrow> Panic NilPointerDereference
           | (Some certList, err) \<Rightarrow>
               (let issuer = crlIssuerId w (Extensions (TBSCertList certList))
                in if issuer = [] then SetupCrls_loop w config crlFiles
                   else (case index (clientCasBySubjectKeyId config) issuer of
                           None \<Rightarrow> SetupCrls_loop w config crlFiles
                         | Some caCert \<Rightarrow>
                             (case CheckCRLSignature w caCert certList of
                                Some err \<Rightarrow> SetupCrls_loop w config crlFiles
                              | None \<Rightarrow>
                                  (case CrlByAuthorityKeyId config of
                                     None \<Rightarrow> Panic AssignmentToNilMap
                                   | Some table \<Rightarrow>
                                       SetupCrls_loop w
                                         (config\<lparr>CrlByAuthorityKeyId :=
                                            Some (table(issuer \<mapsto> certList))\<rparr>)
                                         crlFiles))))))"

text \<open>
  \<open>SetupCrls\<close> (lines 129 to 196): both maps are made anew (lines 132 and 133), then the
  loop runs. The loop of lines 188 to 194 only prints, and so does \<open>fail\<close> before it
  returns its argument; printed and logged lines are not part of the model.
\<close>

definition SetupCrls :: "lib \<Rightarrow> Config \<Rightarrow> string list \<Rightarrow> (error option \<times> Config) outcome" where
  "SetupCrls w config crlFiles =
     SetupCrls_loop w
       (config\<lparr>CrlByAuthorityKeyId := Some Map.empty,
               clientCasBySubjectKeyId := Some Map.empty\<rparr>)
       crlFiles"

section \<open>The registry: \<open>populateClientCaMap\<close>, \<open>addCertsFromFile\<close>, \<open>SetupTls\<close>\<close>

text \<open>
  The loop of \<open>populateClientCaMap\<close> (lines 288 to 305), with the named result \<open>ok\<close> as
  an argument. It ends when the input is empty or \<open>pem.Decode\<close> finds no block; whether
  it ends on other inputs depends on \<open>pem.Decode\<close>, so the loop is a partial function
  and \<open>None\<close> stands for a run that does not end. Line 303 assigns into the registry.
\<close>

partial_function (option) populateClientCaMap_loop ::
  "lib \<Rightarrow> Config \<Rightarrow> bool \<Rightarrow> bytes \<Rightarrow> (Config \<times> bool) outcome option" where
  "populateClientCaMap_loop w config ok pemCerts =
     (if length pemCerts > 0
      then (case Decode w pemCerts of
              (None, rest) \<Rightarrow> Some (Return (config, ok))
            | (Some block, rest) \<Rightarrow>
                if Type block \<noteq> ''CERTIFICATE'' \<or> length (Headers block) \<noteq> 0
                then populateClientCaMap_loop w config ok rest
                else (case ParseCertificate w (Bytes block) of
                        Inl err \<Rightarrow> populateClientCaMap_loop w config ok rest
                      | Inr cert \<Rightarrow>
                          (case clientCasBySubjectKeyId config of
                             None \<Rightarrow> Some (Panic AssignmentToNilMap)
                           | Some registry \<Rightarrow>
                               populateClientCaMap_loop w
                                 (config\<lparr>clientCasBySubjectKeyId :=
                                    Some (registry(SubjectKeyId cert \<mapsto> cert))\<rparr>)
                                 True rest)))
      else Some (Return (config, ok)))"

definition populateClientCaMap :: "lib \<Rightarrow> Config \<Rightarrow> bytes \<Rightarrow> (Config \<times> bool) outcome option" where
  "populateClientCaMap w config pemCerts = populateClientCaMap_loop w config False pemCerts"

text \<open>
  \<open>addCertsFromFile\<close> (lines 237 to 251): the registry is filled from whatever bytes
  \<open>ioutil.ReadFile\<close> returned, before the read error is looked at.
\<close>

definition addCertsFromFile ::
  "lib \<Rightarrow> Config \<Rightarrow> CertPool \<Rightarrow> string \<Rightarrow> (error option \<times> Config \<times> CertPool) outcome option" where
  "addCertsFromFile w config pool fileName =
     (case ReadFile w fileName of
        (data, err) \<Rightarrow>
          (case populateClientCaMap w config data of
             None \<Rightarrow> None
           | Some (Panic p) \<Rightarrow> Some (Panic p)
           | Some (Return (config, loaded)) \<Rightarrow>
               (case err of
                  Some e \<Rightarrow> Some (Return (Some e, config, pool))
                | None \<Rightarrow>
                    (case AppendCertsFromPEM w pool data of
                       (pool, ok) \<Rightarrow>
                         if \<not> ok
                         then Some (Return (Some (errorString
                                (''Failed to load any certificates from file '' @ [CHR 0x27] @ fileName @ [CHR 0x27])),
                                config, pool))
                         else Some (Return (None, config, pool))))))"

text \<open>The loop of lines 269 to 274 over the client CA files.\<close>

fun addCertsFromFiles ::
  "lib \<Rightarrow> Config \<Rightarrow> CertPool \<Rightarrow> string list \<Rightarrow> (error option \<times> Config \<times> CertPool) outcome option" where
  "addCertsFromFiles w config pool [] = Some (Return (None, config, pool))"
| "addCertsFromFiles w config pool (caFile # caFiles) =
     (case addCertsFromFile w config pool caFile of
        None \<Rightarrow> None
      | Some (Panic p) \<Rightarrow> Some (Panic p)
      | Some (Return (Some err, config, pool)) \<Rightarrow> Some (Return (Some err, config, pool))
      | Some (Return (None, config, pool)) \<Rightarrow> addCertsFromFiles w config pool caFiles)"

text \<open>
  \<open>SetupTls\<close> (lines 254 to 284). \<open>clientCAs\<close> is \<open>x509.NewCertPool()\<close>, an empty pool
  that is not nil, whatever the list of client CA files is.
\<close>

definition NewCertPool :: CertPool where
  "NewCertPool = []"

definition SetupTls ::
  "lib \<Rightarrow> Config \<Rightarrow> string \<Rightarrow> string \<Rightarrow> string list \<Rightarrow> (error option \<times> Config) outcome option" where
  "SetupTls w config certFile keyFile clientCAFiles =
     (if certFile = [] \<or> keyFile = []
      then Some (Return (Some (errorString
             ''both certificate and key files must be specified to set up TLS''), config))
      else (case LoadX509KeyPair w certFile keyFile of
              Inl err \<Rightarrow> Some (Return (Some err, config))
            | Inr serverCert \<Rightarrow>
                (case (if length clientCAFiles \<noteq> 0
                       then (case addCertsFromFiles w config NewCertPool clientCAFiles of
                               None \<Rightarrow> None
                             | Some (Panic p) \<Rightarrow> Some (Panic p)
                             | Some (Return (err, config, clientCAs)) \<Rightarrow>
                                 Some (Return (err, config, clientCAs, VerifyClientCertIfGiven)))
                       else Some (Return (None, config, NewCertPool, NoClientCert))) of
                   None \<Rightarrow> None
                 | Some (Panic p) \<Rightarrow> Some (Panic p)
                 | Some (Return (Some err, config, clientCAs, clientAuth)) \<Rightarrow>
                     Some (Return (Some err, config))
                 | Some (Return (None, config, clientCAs, clientAuth)) \<Rightarrow>
                     Some (Return (None,
                       config\<lparr>TlsConfig := Some \<lparr>Certificates = [serverCert],
                                                   ClientAuth = clientAuth,
                                                   ClientCAs = Some clientCAs\<rparr>\<rparr>)))))"

section \<open>Notions of the specification\<close>

text \<open>
  The PEM blocks of a byte stream, in the specification's sense: the blocks that
  successive calls of \<open>pem.Decode\<close> return, each on the rest the call before left,
  until the input is empty or no block is found. It is a relation because it exists
  only for a run of the decoder that ends.
\<close>

inductive pemBlocks :: "lib \<Rightarrow> bytes \<Rightarrow> pem_Block list \<Rightarrow> bool" for w :: lib where
  pemBlocks_empty: "pemCerts = [] \<Longrightarrow> pemBlocks w pemCerts []"
| pemBlocks_none: "pemCerts \<noteq> [] \<Longrightarrow> Decode w pemCerts = (None, rest) \<Longrightarrow> pemBlocks w pemCerts []"
| pemBlocks_block:
    "pemCerts \<noteq> [] \<Longrightarrow> Decode w pemCerts = (Some block, rest) \<Longrightarrow> pemBlocks w rest blocks
     \<Longrightarrow> pemBlocks w pemCerts (block # blocks)"

text \<open>
  A well-formed certificate block, in the specification's words: its type is
  \<open>CERTIFICATE\<close>, it carries no PEM headers, and its bytes parse as an X.509 certificate.
  The function returns that certificate.
\<close>

definition wellFormedCertificate :: "lib \<Rightarrow> pem_Block \<Rightarrow> Certificate option" where
  "wellFormedCertificate w block =
     (if Type block = ''CERTIFICATE'' \<and> Headers block = []
      then (case ParseCertificate w (Bytes block) of Inl err \<Rightarrow> None | Inr cert \<Rightarrow> Some cert)
      else None)"

definition loaded :: "lib \<Rightarrow> pem_Block list \<Rightarrow> Certificate list" where
  "loaded w blocks = List.map_filter (wellFormedCertificate w) blocks"

text \<open>
  The registry after the certificates \<open>certs\<close> were inserted in this order into
  \<open>registry\<close>, each under its Subject Key Identifier: at a key, the last certificate
  of \<open>certs\<close> with that key, and the entry of \<open>registry\<close> when there is none.
\<close>

definition inserted :: "(bytes \<rightharpoonup> Certificate) \<Rightarrow> Certificate list \<Rightarrow> (bytes \<rightharpoonup> Certificate)" where
  "inserted registry certs =
     (\<lambda>k. case List.find (\<lambda>cert. SubjectKeyId cert = k) (rev certs) of
             None \<Rightarrow> registry k
           | Some cert \<Rightarrow> Some cert)"

section \<open>A test world\<close>

text \<open>
  One authority and one revocation list that names it and that it signed, the files that
  hold them, and a standard library that reads, parses and verifies exactly these.
  In the PEM streams of this world every letter stands for one block: \<open>C\<close> and \<open>D\<close>
  are certificates of the authority (the second a renewal under the same key id), \<open>K\<close>
  is a private key, \<open>H\<close> a certificate block with a PEM header, \<open>X\<close> a certificate
  block whose bytes do not parse; any other byte is trailing data with no block in it.
\<close>

definition caCert0 :: Certificate where
  "caCert0 = \<lparr>Raw = ''der-ca'', SubjectKeyId = ''ski-1'', Subject_CommonName = ''Test CA''\<rparr>"

definition caCert1 :: Certificate where
  "caCert1 = \<lparr>Raw = ''der-ca-renewed'', SubjectKeyId = ''ski-1'', Subject_CommonName = ''Test CA''\<rparr>"

definition crl0 :: CertificateList where
  "crl0 = \<lparr>TBSCertList = \<lparr>Extensions = [\<lparr>Extension.Id = [2, 5, 29, 20], Critical = False, Value = ''7''\<rparr>,
                                           \<lparr>Extension.Id = [2, 5, 29, 35], Critical = False, Value = ''aki-1''\<rparr>],
                            RevokedCertificates = [4096, 4097]\<rparr>,
           SignatureValue = ''sig-ca''\<rparr>"

definition keyBlock :: pem_Block where
  "keyBlock = \<lparr>Type = ''PRIVATE KEY'', Headers = [], Bytes = ''der-key''\<rparr>"

definition certBlock :: pem_Block where
  "certBlock = \<lparr>Type = ''CERTIFICATE'', Headers = [], Bytes = ''der-ca''\<rparr>"

definition renewedBlock :: pem_Block where
  "renewedBlock = \<lparr>Type = ''CERTIFICATE'', Headers = [], Bytes = ''der-ca-renewed''\<rparr>"

definition headerBlock :: pem_Block where
  "headerBlock = \<lparr>Type = ''CERTIFICATE'', Headers = [(''Proc-Type'', ''4'')], Bytes = ''der-ca''\<rparr>"

definition junkBlock :: pem_Block where
  "junkBlock = \<lparr>Type = ''CERTIFICATE'', Headers = [], Bytes = ''junk''\<rparr>"

definition pemOf :: "char \<Rightarrow> pem_Block option" where
  "pemOf c =
     (if c = CHR ''C'' then Some certBlock
      else if c = CHR ''D'' then Some renewedBlock
      else if c = CHR ''K'' then Some keyBlock
      else if c = CHR ''H'' then Some headerBlock
      else if c = CHR ''X'' then Some junkBlock
      else None)"

definition lib0 :: lib where
  "lib0 =
     \<lparr>ReadFile = (\<lambda>name. if name = ''ca.crl'' then (''der-crl'', None)
                          else if name = ''junk.crl'' then (''junk'', None)
                          else if name = ''ca.pem'' then (''KC'', None)
                          else ([], Some (errorString ''no such file or directory''))),
      ParseCRL = (\<lambda>b. if b = ''der-crl'' then (Some crl0, None)
                       else (None, Some (errorString ''asn1: structure error''))),
      Unmarshal = (\<lambda>b. if b = ''aki-1'' then Inr \<lparr>authKeyId.Id = ''ski-1''\<rparr>
                        else Inl (errorString ''asn1: structure error'')),
      CheckCRLSignature = (\<lambda>cert certList.
                             if Raw cert = ''der-ca'' \<and> SignatureValue certList = ''sig-ca'' then None
                             else Some (errorString ''x509: verification error'')),
      Decode = (\<lambda>b. case b of [] \<Rightarrow> (None, [])
                      | c # rest \<Rightarrow> (case pemOf c of None \<Rightarrow> (None, b) | Some block \<Rightarrow> (Some block, rest))),
      ParseCertificate = (\<lambda>b. if b = ''der-ca'' then Inr caCert0
                               else if b = ''der-ca-renewed'' then Inr caCert1
                               else Inl (errorString ''asn1: structure error'')),
      LoadX509KeyPair = (\<lambda>certFile keyFile.
                           if certFile = ''server.pem'' \<and> keyFile = ''server.key'' then Inr ''keypair''
                           else Inl (errorString ''no such file or directory'')),
      AppendCertsFromPEM = (\<lambda>pool b. (pool @ List.map_filter
                               (\<lambda>c. if c = CHR ''C'' then Some caCert0
                                    else if c = CHR ''D'' then Some caCert1 else None) b,
                             CHR ''C'' \<in> set b \<or> CHR ''D'' \<in> set b))\<rparr>"

text \<open>The zero value of \<open>Config\<close>, and requests with and without the role header.\<close>

definition config0 :: Config where
  "config0 = \<lparr>TlsConfig = None, CrlByAuthorityKeyId = None, RoleFromRequest = None,
               clientCasBySubjectKeyId = None, Log = None, hostExtractExpr = None\<rparr>"

definition request :: "string list option \<Rightarrow> Certificate list option \<Rightarrow> Request" where
  "request role peers =
     \<lparr>Header = (\<lambda>name. if name = ''X-Smokescreen-Role'' then role else None),
      TLS = map_option (\<lambda>certs. \<lparr>PeerCertificates = certs\<rparr>) peers\<rparr>"

text \<open>
  The configuration after \<open>Init\<close> on the zero value and then \<open>SetupTls\<close> with the
  client CA file \<open>ca.pem\<close>, and the same configuration with a revocation table that the
  caller filled in (the field is exported).
\<close>

definition configCA :: Config where
  "configCA =
     \<lparr>TlsConfig = Some \<lparr>Certificates = [''keypair''], ClientAuth = VerifyClientCertIfGiven,
                          ClientCAs = Some [caCert0]\<rparr>,
      CrlByAuthorityKeyId = Some Map.empty,
      RoleFromRequest = Some roleFromHeader,
      clientCasBySubjectKeyId = Some [''ski-1'' \<mapsto> caCert0],
      Log = Some Logger,
      hostExtractExpr = Some hostPortPattern\<rparr>"

definition configCRL :: Config where
  "configCRL = configCA\<lparr>CrlByAuthorityKeyId := Some [''ski-1'' \<mapsto> crl0]\<rparr>"

definition configReloaded :: Config where
  "configReloaded = configCA\<lparr>CrlByAuthorityKeyId := Some Map.empty,
                              clientCasBySubjectKeyId := Some Map.empty\<rparr>"

section \<open>Identity resolution\<close>

lemma Init_RoleFromRequest:
  "RoleFromRequest (snd (Init config)) =
     Some (if clientCAsSet config then roleFromPeerCertificate else roleFromHeader)"
  by (simp add: Init_def Let_def clientCAsSet_def)

lemma Init_returns_nil: "fst (Init config) = None"
  by (simp add: Init_def Let_def)

lemma Init_TlsConfig: "TlsConfig (snd (Init config)) = TlsConfig config"
  by (simp add: Init_def Let_def)

lemma Init_config0:
  "snd (Init config0) =
     \<lparr>TlsConfig = None, CrlByAuthorityKeyId = Some Map.empty,
      RoleFromRequest = Some roleFromHeader, clientCasBySubjectKeyId = Some Map.empty,
      Log = Some Logger, hostExtractExpr = Some hostPortPattern\<rparr>"
  by (simp add: Init_def config0_def clientCAsSet_def)

text \<open>
  The two resolvers differ: on a request with one role header over a TLS connection
  without peer certificates, one returns the header and the other fails.
\<close>

lemma resolvers_differ: "roleFromPeerCertificate \<noteq> roleFromHeader"
proof
  assume "roleFromPeerCertificate = roleFromHeader"
  then have "roleFromPeerCertificate (request (Some [''a'']) (Some []))
      = roleFromHeader (request (Some [''a'']) (Some []))"
    by simp
  then show False
    by (simp add: roleFromPeerCertificate_def roleFromHeader_def request_def)
qed

text \<open>
  Whatever the client CA files are, a configuration that \<open>SetupTls\<close> has set up
  passes the test of line 105.
\<close>

lemma SetupTls_clientCAsSet:
  assumes "SetupTls w config certFile keyFile clientCAFiles = Some (Return (None, config'))"
  shows "clientCAsSet config'"
  using assms
  by (auto simp add: SetupTls_def clientCAsSet_def
      split: if_splits sum.splits option.splits outcome.splits prod.splits)

text \<open>
  C6. Under the header strategy (the resolver \<open>Init\<close> installs when the test of line 105
  fails), for every request: when the role header is absent (or has no value) the
  resolution fails with a MissingRole error; when it has more than one value, equal or
  not, the resolution fails with a MissingRole error; when it has exactly one value,
  that value is the identity, as it is.
\<close>

theorem header_strategy:
  assumes "\<not> clientCAsSet config"
    and "RoleFromRequest (snd (Init config)) = Some resolve"
  shows "(Header req ''X-Smokescreen-Role'' = None \<or> Header req ''X-Smokescreen-Role'' = Some []
            \<longrightarrow> (\<exists>err. resolve req = Return (Inl err) \<and> IsMissingRoleError err))
       \<and> (\<forall>vs. Header req ''X-Smokescreen-Role'' = Some vs \<and> length vs > 1
            \<longrightarrow> (\<exists>err. resolve req = Return (Inl err) \<and> IsMissingRoleError err))
       \<and> (\<forall>v. Header req ''X-Smokescreen-Role'' = Some [v] \<longrightarrow> resolve req = Return (Inr v))"
proof -
  from assms have r: "resolve = roleFromHeader"
    by (simp add: Init_RoleFromRequest)
  show ?thesis
    unfolding r
    by (auto simp add: roleFromHeader_def Let_def MissingRoleError_def IsMissingRoleError_def)
qed

theorem header_strategy_witness:
  "\<not> clientCAsSet config0
   \<and> RoleFromRequest (snd (Init config0)) = Some roleFromHeader
   \<and> roleFromHeader (request None None)
       = Return (Inl (missingRoleError ''client did not send 'X-Smokescreen-Role' header''))
   \<and> roleFromHeader (request (Some [''payments-service'', ''payments-service'']) None)
       = Return (Inl (missingRoleError ''client sent multiple 'X-Smokescreen-Role' headers''))
   \<and> roleFromHeader (request (Some [''payments-service'']) None) = Return (Inr ''payments-service'')"
proof -
  have a: "\<not> clientCAsSet config0"
    by (simp add: clientCAsSet_def config0_def)
  have b: "RoleFromRequest (snd (Init config0)) = Some roleFromHeader"
    by (simp add: Init_RoleFromRequest a)
  note h = header_strategy [OF a b]
  show ?thesis
    using a b h [of "request None None"]
      h [of "request (Some [''payments-service'', ''payments-service'']) None"]
      h [of "request (Some [''payments-service'']) None"]
    by (simp add: request_def roleFromHeader_def MissingRoleError_def)
qed

text \<open>
  The resolver of the mutual-TLS strategy (the one \<open>Init\<close> installs when the test of
  line 105 holds) on a request that came over a TLS connection: when the connection
  presents no peer certificate the resolution returns a MissingRole error, and when it
  presents at least one the identity is the Subject Common Name of the first.
\<close>

lemma mutual_tls_strategy:
  assumes "clientCAsSet config"
    and "RoleFromRequest (snd (Init config)) = Some resolve"
    and "TLS req = Some cs"
  shows "(PeerCertificates cs = []
            \<longrightarrow> (\<exists>err. resolve req = Return (Inl err) \<and> IsMissingRoleError err))
       \<and> (PeerCertificates cs \<noteq> []
            \<longrightarrow> resolve req = Return (Inr (Subject_CommonName (hd (PeerCertificates cs)))))"
proof -
  from assms(1,2) have r: "resolve = roleFromPeerCertificate"
    by (simp add: Init_RoleFromRequest)
  show ?thesis
    unfolding r using assms(3)
    by (auto simp add: roleFromPeerCertificate_def MissingRoleError_def IsMissingRoleError_def
        hd_conv_nth)
qed

lemma mutual_tls_strategy_example:
  "clientCAsSet configCA
   \<and> RoleFromRequest (snd (Init configCA)) = Some roleFromPeerCertificate
   \<and> roleFromPeerCertificate (request None (Some []))
       = Return (Inl (missingRoleError ''client did not provide certificate''))
   \<and> roleFromPeerCertificate
        (request None (Some [caCert1\<lparr>Subject_CommonName := ''payments-service''\<rparr>, caCert0]))
       = Return (Inr ''payments-service'')"
proof -
  have a: "clientCAsSet configCA"
    by (simp add: clientCAsSet_def configCA_def)
  have b: "RoleFromRequest (snd (Init configCA)) = Some roleFromPeerCertificate"
    by (simp add: Init_RoleFromRequest a)
  have c: "TLS (request None (Some certs)) = Some \<lparr>PeerCertificates = certs\<rparr>" for certs
    by (simp add: request_def)
  show ?thesis
    using a b mutual_tls_strategy [OF a b c [of "[]"]]
      mutual_tls_strategy
        [OF a b c [of "[caCert1\<lparr>Subject_CommonName := ''payments-service''\<rparr>, caCert0]"]]
    by (simp add: MissingRoleError_def roleFromPeerCertificate_def request_def)
qed

text \<open>
  A request that did not come over TLS has a nil \<open>TLS\<close> field, and the resolver of the
  mutual-TLS strategy panics on it.
\<close>

lemma roleFromPeerCertificate_nil_TLS:
  "TLS req = None \<Longrightarrow> roleFromPeerCertificate req = Panic NilPointerDereference"
  by (simp add: roleFromPeerCertificate_def)

text \<open>
  C8. The claim: under the mutual-TLS strategy, for every request, a connection that
  presents no peer certificate is answered with a MissingRole error, without a panic.
  The code at a request that presents none because it did not come over TLS: the
  configuration passes the test of line 105, \<open>Init\<close> installs the resolver of the
  mutual-TLS strategy, and on the request, whose \<open>TLS\<close> field is nil, the resolver
  panics at line 108 instead of returning the error.
\<close>

theorem mutual_tls_strategy_panics_without_TLS:
  "clientCAsSet configCA
   \<and> RoleFromRequest (snd (Init configCA)) = Some roleFromPeerCertificate
   \<and> TLS (request (Some [''payments-service'']) None) = None
   \<and> roleFromPeerCertificate (request (Some [''payments-service'']) None)
       = Panic NilPointerDereference"
proof (intro conjI)
  show a: "clientCAsSet configCA"
    by (simp add: clientCAsSet_def configCA_def)
  show "RoleFromRequest (snd (Init configCA)) = Some roleFromPeerCertificate"
    by (simp add: Init_RoleFromRequest a)
  show b: "TLS (request (Some [''payments-service'']) None) = None"
    by (simp add: request_def)
  show "roleFromPeerCertificate (request (Some [''payments-service'']) None)
       = Panic NilPointerDereference"
    by (simp add: roleFromPeerCertificate_def b)
qed

text \<open>
  C7. The claim: the header strategy is chosen whenever no client-certificate trust
  pool is configured, in particular when TLS was set up with no client CA file. The
  code at that input: \<open>SetupTls\<close> with an empty list of client CA files stores an
  empty pool that is not nil, \<open>Init\<close> then installs the resolver of the mutual-TLS
  strategy, and a request that carries the role header over such a connection (no client
  certificate is ever asked for) is refused, where the header strategy would return
  the header.
\<close>

theorem SetupTls_without_client_CAs:
  "SetupTls lib0 config0 ''server.pem'' ''server.key'' []
     = Some (Return (None, config0\<lparr>TlsConfig := Some \<lparr>Certificates = [''keypair''],
                 ClientAuth = NoClientCert, ClientCAs = Some []\<rparr>\<rparr>))
   \<and> RoleFromRequest (snd (Init (config0\<lparr>TlsConfig := Some \<lparr>Certificates = [''keypair''],
                 ClientAuth = NoClientCert, ClientCAs = Some []\<rparr>\<rparr>)))
     = Some roleFromPeerCertificate
   \<and> roleFromPeerCertificate (request (Some [''payments-service'']) (Some []))
     = Return (Inl (missingRoleError ''client did not provide certificate''))
   \<and> roleFromHeader (request (Some [''payments-service'']) (Some []))
     = Return (Inr ''payments-service'')"
  by (simp add: SetupTls_def lib0_def NewCertPool_def Init_RoleFromRequest clientCAsSet_def
      roleFromPeerCertificate_def roleFromHeader_def request_def MissingRoleError_def)

section \<open>Revocation lists\<close>

subsection \<open>The loop over the files\<close>

text \<open>
  With an empty registry no lookup of line 168 succeeds, so the loop never reaches
  line 184: the configuration it returns is the one it was entered with.
\<close>

lemma SetupCrls_loop_no_authority:
  assumes "clientCasBySubjectKeyId config = Some Map.empty"
    and "SetupCrls_loop w config crlFiles = Return (err, config')"
  shows "config' = config"
  using assms
proof (induction crlFiles)
  case Nil
  then show ?case by simp
next
  case (Cons crlFile crlFiles)
  then show ?case
    by (auto simp add: index_def Let_def split: prod.splits option.splits if_splits)
qed

lemma SetupCrls_loop_skip:
  assumes "clientCasBySubjectKeyId config = Some Map.empty"
    and "\<forall>f \<in> set before. snd (ReadFile w f) = None \<and> fst (ParseCRL w (fst (ReadFile w f))) \<noteq> None"
  shows "SetupCrls_loop w config (before @ crlFiles) = SetupCrls_loop w config crlFiles"
  using assms
proof (induction before)
  case Nil
  then show ?case by simp
next
  case (Cons f before)
  then show ?case
    by (auto simp add: index_def Let_def split: prod.splits option.splits)
qed

text \<open>
  A file that is read and does not parse: \<open>x509.ParseCRL\<close> returns a nil list with its
  error, and the loop body panics at line 149.
\<close>

lemma SetupCrls_loop_parse_failure:
  assumes "ReadFile w crlFile = (crlBytes, None)" and "fst (ParseCRL w crlBytes) = None"
  shows "SetupCrls_loop w config (crlFile # crlFiles) = Panic NilPointerDereference"
  using assms by (cases "ParseCRL w crlBytes") simp

text \<open>
  A file that is read and parsed, whose issuer id is not empty and maps to an authority
  of the registry the loop was entered with, and whose signature that authority verifies:
  the loop body installs the list under the issuer id (line 184) and goes on.
\<close>

lemma SetupCrls_loop_installs:
  assumes "ReadFile w crlFile = (crlBytes, None)"
    and "ParseCRL w crlBytes = (Some certList, parseErr)"
    and "crlIssuerId w (Extensions (TBSCertList certList)) = issuer" and "issuer \<noteq> []"
    and "index (clientCasBySubjectKeyId config) issuer = Some caCert"
    and "CheckCRLSignature w caCert certList = None"
    and "CrlByAuthorityKeyId config = Some table"
  shows "SetupCrls_loop w config (crlFile # crlFiles)
     = SetupCrls_loop w (config\<lparr>CrlByAuthorityKeyId := Some (table(issuer \<mapsto> certList))\<rparr>) crlFiles"
  using assms by (simp del: fun_upd_apply)

text \<open>
  The checks of lines 162 to 181, on any registry the loop may be entered with: the loop
  leaves the registry alone, and every entry of the table it returns was in the table
  before or is a list whose issuer id is its key, is not empty, and names an authority
  of the registry that verifies the signature of the list.
\<close>

lemma SetupCrls_loop_verified:
  assumes "SetupCrls_loop w config crlFiles = Return (err, config')"
    and "CrlByAuthorityKeyId config = Some table"
    and "CrlByAuthorityKeyId config' = Some table'"
    and "table' k = Some certList"
  shows "table k = Some certList
       \<or> (k \<noteq> [] \<and> crlIssuerId w (Extensions (TBSCertList certList)) = k
          \<and> (\<exists>caCert. index (clientCasBySubjectKeyId config) k = Some caCert
                \<and> CheckCRLSignature w caCert certList = None))"
  using assms
proof (induction crlFiles arbitrary: config table)
  case Nil
  then show ?case by simp
next
  case (Cons crlFile crlFiles)
  obtain crlBytes readErr where rd: "ReadFile w crlFile = (crlBytes, readErr)"
    by (cases "ReadFile w crlFile")
  obtain parsed parseErr where pr: "ParseCRL w crlBytes = (parsed, parseErr)"
    by (cases "ParseCRL w crlBytes")
  show ?case
  proof (cases readErr)
    case (Some e)
    with Cons.prems rd show ?thesis by simp
  next
    case None
    note noReadErr = None
    show ?thesis
    proof (cases parsed)
      case None
      with Cons.prems rd pr noReadErr show ?thesis by simp
    next
      case (Some new)
      let ?issuer = "crlIssuerId w (Extensions (TBSCertList new))"
      let ?installs = "?issuer \<noteq> []
          \<and> (\<exists>caCert. index (clientCasBySubjectKeyId config) ?issuer = Some caCert
                \<and> CheckCRLSignature w caCert new = None)"
      show ?thesis
      proof (cases ?installs)
        case False
        with Cons.prems(1) rd pr noReadErr Some
        have "SetupCrls_loop w config crlFiles = Return (err, config')"
          by (auto simp add: Let_def split: option.splits if_splits)
        from Cons.IH [OF this Cons.prems(2) Cons.prems(3) Cons.prems(4)] show ?thesis .
      next
        case True
        let ?config = "config\<lparr>CrlByAuthorityKeyId := Some (table(?issuer \<mapsto> new))\<rparr>"
        from True Cons.prems(1,2) rd pr noReadErr Some
        have run: "SetupCrls_loop w ?config crlFiles = Return (err, config')"
          by (auto simp add: Let_def split: option.splits if_splits)
        have tab: "CrlByAuthorityKeyId ?config = Some (table(?issuer \<mapsto> new))"
          by (simp del: fun_upd_apply)
        from Cons.IH [OF run tab Cons.prems(3) Cons.prems(4)]
        have "(table(?issuer \<mapsto> new)) k = Some certList
           \<or> (k \<noteq> [] \<and> crlIssuerId w (Extensions (TBSCertList certList)) = k
              \<and> (\<exists>caCert. index (clientCasBySubjectKeyId config) k = Some caCert
                    \<and> CheckCRLSignature w caCert certList = None))"
          by simp
        with True show ?thesis
          by (auto split: if_splits)
      qed
    qed
  qed
qed

subsection \<open>\<open>SetupCrls\<close>\<close>

text \<open>
  C10. Every call of \<open>SetupCrls\<close> starts from an empty table and an empty registry,
  whatever the configuration held: its outcome does not depend on the two maps it is
  called with. So whenever it returns (with an error or without), every lookup of an
  authority went to a registry that was empty when the loop started, and the table it
  leaves is empty, as is the registry: no entry was installed through a certificate
  loaded before the call.
\<close>

theorem SetupCrls_resets:
  "SetupCrls w (config\<lparr>CrlByAuthorityKeyId := table, clientCasBySubjectKeyId := registry\<rparr>) crlFiles
     = SetupCrls w config crlFiles
   \<and> (\<forall>err config'. SetupCrls w config crlFiles = Return (err, config') \<longrightarrow>
         CrlByAuthorityKeyId config' = Some Map.empty
         \<and> clientCasBySubjectKeyId config' = Some Map.empty)"
proof (intro conjI allI impI)
  show "SetupCrls w (config\<lparr>CrlByAuthorityKeyId := table, clientCasBySubjectKeyId := registry\<rparr>) crlFiles
     = SetupCrls w config crlFiles"
    by (simp add: SetupCrls_def)
next
  fix err config'
  assume r: "SetupCrls w config crlFiles = Return (err, config')"
  let ?c = "config\<lparr>CrlByAuthorityKeyId := Some Map.empty, clientCasBySubjectKeyId := Some Map.empty\<rparr>"
  have "clientCasBySubjectKeyId ?c = Some Map.empty" by simp
  moreover from r have "SetupCrls_loop w ?c crlFiles = Return (err, config')"
    by (simp add: SetupCrls_def)
  ultimately have "config' = ?c"
    by (rule SetupCrls_loop_no_authority)
  then show "CrlByAuthorityKeyId config' = Some Map.empty"
    and "clientCasBySubjectKeyId config' = Some Map.empty"
    by simp_all
qed

lemma crl0_issuer: "crlIssuerId lib0 (Extensions (TBSCertList crl0)) = ''ski-1''"
  by (simp add: crl0_def lib0_def extensionOid_def)

lemma lib0_ca_crl:
  "ReadFile lib0 ''ca.crl'' = (''der-crl'', None)" "ParseCRL lib0 ''der-crl'' = (Some crl0, None)"
  by (simp_all add: lib0_def)

text \<open>
  In the test world the loop, entered with the registry that \<open>SetupTls\<close> built,
  installs the list of the authority.
\<close>

lemma SetupCrls_loop_configCA:
  "SetupCrls_loop lib0 configCA [''ca.crl''] = Return (None, configCRL)"
proof -
  have "SetupCrls_loop lib0 configCA [''ca.crl'']
      = SetupCrls_loop lib0 (configCA\<lparr>CrlByAuthorityKeyId := Some (Map.empty(''ski-1'' \<mapsto> crl0))\<rparr>) []"
  proof (rule SetupCrls_loop_installs)
    show "ReadFile lib0 ''ca.crl'' = (''der-crl'', None)"
      and "ParseCRL lib0 ''der-crl'' = (Some crl0, None)"
      by (rule lib0_ca_crl)+
    show "crlIssuerId lib0 (Extensions (TBSCertList crl0)) = ''ski-1''"
      by (rule crl0_issuer)
    show "''ski-1'' \<noteq> []"
      by simp
    show "index (clientCasBySubjectKeyId configCA) ''ski-1'' = Some caCert0"
      by (simp add: configCA_def index_def)
    show "CheckCRLSignature lib0 caCert0 crl0 = None"
      by (simp add: lib0_def caCert0_def crl0_def)
    show "CrlByAuthorityKeyId configCA = Some Map.empty"
      by (simp add: configCA_def)
  qed
  then show ?thesis
    by (simp add: configCRL_def)
qed

theorem SetupCrls_resets_witness:
  "SetupCrls lib0 configCRL [''ca.crl'', ''ca.crl'']
     = Return (None, configCRL\<lparr>CrlByAuthorityKeyId := Some Map.empty,
                                clientCasBySubjectKeyId := Some Map.empty\<rparr>)
   \<and> SetupCrls lib0 configCRL [''ca.crl'', ''ca.crl'']
     = SetupCrls lib0 (configCRL\<lparr>CrlByAuthorityKeyId := None, clientCasBySubjectKeyId := None\<rparr>)
         [''ca.crl'', ''ca.crl'']"
proof -
  have "SetupCrls lib0 configCRL [''ca.crl'', ''ca.crl'']
     = Return (None, configCRL\<lparr>CrlByAuthorityKeyId := Some Map.empty,
                                clientCasBySubjectKeyId := Some Map.empty\<rparr>)"
    using lib0_ca_crl by (simp add: SetupCrls_def crl0_issuer index_def)
  with SetupCrls_resets [where w = lib0 and config = configCRL and table = None
      and registry = None and crlFiles = "[''ca.crl'', ''ca.crl'']"]
  show ?thesis by simp
qed

text \<open>
  C1. The claim: a list that parses, whose Authority Key Identifier is the subject key id
  of an authority of the registry, and whose signature that authority verifies, is in the
  table after \<open>SetupCrls\<close>, under that key id. The code at such an input: the
  registry of \<open>configCA\<close> holds the authority under \<open>ski-1\<close>, the file \<open>ca.crl\<close> is read
  and parses to a list with that issuer id which the authority verifies, and
  \<open>SetupCrls\<close> returns nil with an empty table and an empty registry.
\<close>

theorem SetupCrls_leaves_out_verified_list:
  "index (clientCasBySubjectKeyId configCA) ''ski-1'' = Some caCert0
   \<and> ReadFile lib0 ''ca.crl'' = (''der-crl'', None)
   \<and> ParseCRL lib0 ''der-crl'' = (Some crl0, None)
   \<and> crlIssuerId lib0 (Extensions (TBSCertList crl0)) = SubjectKeyId caCert0
   \<and> CheckCRLSignature lib0 caCert0 crl0 = None
   \<and> SetupCrls lib0 configCA [''ca.crl'']
       = Return (None, configCA\<lparr>CrlByAuthorityKeyId := Some Map.empty,
                                 clientCasBySubjectKeyId := Some Map.empty\<rparr>)"
proof (intro conjI)
  show "index (clientCasBySubjectKeyId configCA) ''ski-1'' = Some caCert0"
    by (simp add: configCA_def index_def)
  show "ReadFile lib0 ''ca.crl'' = (''der-crl'', None)"
    by (rule lib0_ca_crl)
  show "ParseCRL lib0 ''der-crl'' = (Some crl0, None)"
    by (rule lib0_ca_crl)
  show "crlIssuerId lib0 (Extensions (TBSCertList crl0)) = SubjectKeyId caCert0"
    by (simp add: crl0_issuer caCert0_def)
  show "CheckCRLSignature lib0 caCert0 crl0 = None"
    by (simp add: lib0_def caCert0_def crl0_def)
  show "SetupCrls lib0 configCA [''ca.crl'']
       = Return (None, configCA\<lparr>CrlByAuthorityKeyId := Some Map.empty,
                                 clientCasBySubjectKeyId := Some Map.empty\<rparr>)"
    using lib0_ca_crl by (simp add: SetupCrls_def crl0_issuer index_def)
qed

text \<open>
  C2. The claim: a file whose bytes do not parse is logged and skipped, without a
  panic, and the next file is processed. The code at such an input: \<open>junk.crl\<close> is read,
  \<open>x509.ParseCRL\<close> returns nil and an error, and \<open>SetupCrls\<close> panics on the nil list;
  the file after it is not processed.
\<close>

theorem SetupCrls_parse_failure_panics:
  "ReadFile lib0 ''junk.crl'' = (''junk'', None)
   \<and> ParseCRL lib0 ''junk'' = (None, Some (errorString ''asn1: structure error''))
   \<and> SetupCrls lib0 configCA [''junk.crl'', ''ca.crl''] = Panic NilPointerDereference"
proof (intro conjI)
  show rd: "ReadFile lib0 ''junk.crl'' = (''junk'', None)"
    by (simp add: lib0_def)
  show pr: "ParseCRL lib0 ''junk'' = (None, Some (errorString ''asn1: structure error''))"
    by (simp add: lib0_def)
  from rd pr show "SetupCrls lib0 configCA [''junk.crl'', ''ca.crl''] = Panic NilPointerDereference"
    by (simp add: SetupCrls_def SetupCrls_loop_parse_failure)
qed

text \<open>
  A file that cannot be read, after files that were read and parsed: the loop returns
  the read error at once, and the configuration is as lines 132 and 133 left it.
\<close>

lemma SetupCrls_read_error_state:
  assumes "\<forall>f \<in> set before. snd (ReadFile w f) = None \<and> fst (ParseCRL w (fst (ReadFile w f))) \<noteq> None"
    and "ReadFile w crlFile = (crlBytes, Some err)"
  shows "SetupCrls w config (before @ crlFile # after)
     = Return (Some err, config\<lparr>CrlByAuthorityKeyId := Some Map.empty,
                                  clientCasBySubjectKeyId := Some Map.empty\<rparr>)"
proof -
  let ?c = "config\<lparr>CrlByAuthorityKeyId := Some Map.empty, clientCasBySubjectKeyId := Some Map.empty\<rparr>"
  have "SetupCrls_loop w ?c (before @ crlFile # after) = SetupCrls_loop w ?c (crlFile # after)"
    using assms(1) by (intro SetupCrls_loop_skip) simp_all
  also have "\<dots> = Return (Some err, ?c)"
    using assms(2) by simp
  finally show ?thesis
    by (simp add: SetupCrls_def)
qed

text \<open>
  C5, as stated, fails: after a reload that a read error aborted, the table and the
  registry are both empty, whatever they held before the call. Here the configuration holds
  an authority and a list under \<open>ski-1\<close> and the only file cannot be read.
\<close>

theorem SetupCrls_read_failure_empties:
  "ReadFile lib0 ''missing.crl'' = ([], Some (errorString ''no such file or directory''))
   \<and> SetupCrls lib0 configCRL [''missing.crl'']
       = Return (Some (errorString ''no such file or directory''),
                 configCRL\<lparr>CrlByAuthorityKeyId := Some Map.empty,
                            clientCasBySubjectKeyId := Some Map.empty\<rparr>)
   \<and> index (CrlByAuthorityKeyId configCRL) ''ski-1'' = Some crl0
   \<and> index (CrlByAuthorityKeyId (configCRL\<lparr>CrlByAuthorityKeyId := Some Map.empty,
                            clientCasBySubjectKeyId := Some Map.empty\<rparr>)) ''ski-1'' = None
   \<and> index (clientCasBySubjectKeyId configCRL) ''ski-1'' = Some caCert0
   \<and> index (clientCasBySubjectKeyId (configCRL\<lparr>CrlByAuthorityKeyId := Some Map.empty,
                            clientCasBySubjectKeyId := Some Map.empty\<rparr>)) ''ski-1'' = None"
  by (simp add: SetupCrls_def lib0_def index_def configCRL_def configCA_def)

text \<open>
  C5, amended. When a file cannot be read, and every file before it in the list was read
  and parsed, \<open>SetupCrls\<close> returns the read error, whatever files follow; and the
  configuration it leaves is the same whatever table the configuration held before the
  call: the table of before the call is not kept.
\<close>

theorem SetupCrls_read_failure:
  assumes "\<forall>f \<in> set before. snd (ReadFile w f) = None \<and> fst (ParseCRL w (fst (ReadFile w f))) \<noteq> None"
    and "ReadFile w crlFile = (crlBytes, Some err)"
  shows "\<exists>config'. \<forall>table after.
           SetupCrls w (config\<lparr>CrlByAuthorityKeyId := table\<rparr>) (before @ crlFile # after)
             = Return (Some err, config')"
proof (intro exI allI)
  fix table after
  let ?c = "config\<lparr>CrlByAuthorityKeyId := table\<rparr>"
  have "SetupCrls w ?c (before @ crlFile # after)
      = Return (Some err, ?c\<lparr>CrlByAuthorityKeyId := Some Map.empty,
                              clientCasBySubjectKeyId := Some Map.empty\<rparr>)"
    using assms by (rule SetupCrls_read_error_state)
  then show "SetupCrls w ?c (before @ crlFile # after)
      = Return (Some err, config\<lparr>CrlByAuthorityKeyId := Some Map.empty,
                                   clientCasBySubjectKeyId := Some Map.empty\<rparr>)"
    by simp
qed

theorem SetupCrls_read_failure_witness:
  "snd (ReadFile lib0 ''ca.crl'') = None
   \<and> fst (ParseCRL lib0 (fst (ReadFile lib0 ''ca.crl''))) \<noteq> None
   \<and> ReadFile lib0 ''missing.crl'' = ([], Some (errorString ''no such file or directory''))
   \<and> (\<exists>config'.
         SetupCrls lib0 configCA [''ca.crl'', ''missing.crl'', ''junk.crl'']
           = Return (Some (errorString ''no such file or directory''), config')
         \<and> SetupCrls lib0 configCRL [''ca.crl'', ''missing.crl'', ''junk.crl'']
           = Return (Some (errorString ''no such file or directory''), config')
         \<and> SetupCrls lib0 configCRL [''ca.crl'', ''missing.crl'']
           = Return (Some (errorString ''no such file or directory''), config'))"
proof -
  have a: "\<forall>f \<in> set [''ca.crl'']. snd (ReadFile lib0 f) = None
        \<and> fst (ParseCRL lib0 (fst (ReadFile lib0 f))) \<noteq> None"
    by (simp add: lib0_ca_crl)
  have b: "ReadFile lib0 ''missing.crl'' = ([], Some (errorString ''no such file or directory''))"
    by (simp add: lib0_def)
  from SetupCrls_read_failure [OF a b, of configCA] obtain config' where
    run: "\<And>table after.
           SetupCrls lib0 (configCA\<lparr>CrlByAuthorityKeyId := table\<rparr>)
             ([''ca.crl''] @ ''missing.crl'' # after)
             = Return (Some (errorString ''no such file or directory''), config')"
    by blast
  have "configCA\<lparr>CrlByAuthorityKeyId := CrlByAuthorityKeyId configCA\<rparr> = configCA"
    by simp
  with run [of "CrlByAuthorityKeyId configCA" "[''junk.crl'']"]
    run [of "Some [''ski-1'' \<mapsto> crl0]" "[''junk.crl'']"]
    run [of "Some [''ski-1'' \<mapsto> crl0]" "[]"]
  have "SetupCrls lib0 configCA [''ca.crl'', ''missing.crl'', ''junk.crl'']
           = Return (Some (errorString ''no such file or directory''), config')
         \<and> SetupCrls lib0 configCRL [''ca.crl'', ''missing.crl'', ''junk.crl'']
           = Return (Some (errorString ''no such file or directory''), config')
         \<and> SetupCrls lib0 configCRL [''ca.crl'', ''missing.crl'']
           = Return (Some (errorString ''no such file or directory''), config')"
    by (simp add: configCRL_def)
  with a b show ?thesis
    by auto
qed

section \<open>The registry\<close>

subsection \<open>Lists and the specification's notions\<close>

lemma find_append_last:
  "List.find P (xs @ [x]) =
     (case List.find P xs of None \<Rightarrow> (if P x then Some x else None) | Some y \<Rightarrow> Some y)"
  by (induction xs) auto

lemma find_append_cases:
  "List.find P (xs @ ys) = (case List.find P xs of None \<Rightarrow> List.find P ys | Some x \<Rightarrow> Some x)"
  by (induction xs) auto

lemma find_Some_set: "List.find P xs = Some x \<Longrightarrow> x \<in> set xs \<and> P x"
  by (induction xs) (auto split: if_splits)

lemma inserted_Nil: "inserted registry [] = registry"
  by (simp add: inserted_def)

lemma inserted_Cons:
  "inserted registry (cert # certs) = inserted (registry(SubjectKeyId cert \<mapsto> cert)) certs"
  by (auto simp add: inserted_def find_append_last fun_eq_iff split: option.splits)

lemma inserted_other:
  assumes "\<forall>c \<in> set certs. SubjectKeyId c \<noteq> k"
  shows "inserted registry certs k = registry k"
proof -
  from assms have "List.find (\<lambda>cert. SubjectKeyId cert = k) (rev certs) = None"
    by (simp add: find_None_iff)
  then show ?thesis
    by (simp add: inserted_def)
qed

lemma inserted_last:
  assumes "\<forall>c \<in> set after. SubjectKeyId c \<noteq> SubjectKeyId cert"
  shows "inserted registry (before @ cert # after) (SubjectKeyId cert) = Some cert"
proof -
  let ?P = "\<lambda>c. SubjectKeyId c = SubjectKeyId cert"
  from assms have "List.find ?P (rev after) = None"
    by (simp add: find_None_iff)
  then have "List.find ?P (rev after @ [cert]) = Some cert"
    by (simp add: find_append_last)
  then have "List.find ?P ((rev after @ [cert]) @ rev before) = Some cert"
    by (simp only: find_append_cases option.case)
  then show ?thesis
    by (simp add: inserted_def)
qed

lemma inserted_bound:
  assumes "cert \<in> set certs"
  shows "\<exists>c \<in> set certs. SubjectKeyId c = SubjectKeyId cert
           \<and> inserted registry certs (SubjectKeyId cert) = Some c"
proof -
  let ?P = "\<lambda>c. SubjectKeyId c = SubjectKeyId cert"
  from assms have "List.find ?P (rev certs) \<noteq> None"
    by (auto simp add: find_None_iff)
  then obtain c where c: "List.find ?P (rev certs) = Some c"
    by blast
  from find_Some_set [OF this] have "c \<in> set certs" "SubjectKeyId c = SubjectKeyId cert"
    by simp_all
  with c show ?thesis
    by (auto simp add: inserted_def)
qed

lemma loaded_Cons:
  "loaded w (block # blocks) =
     (case wellFormedCertificate w block of
        None \<Rightarrow> loaded w blocks
      | Some cert \<Rightarrow> cert # loaded w blocks)"
  by (simp add: loaded_def List.map_filter_simps split: option.splits)

lemma loaded_append: "loaded w (xs @ ys) = loaded w xs @ loaded w ys"
  by (induction xs) (simp_all add: loaded_Cons loaded_def List.map_filter_simps split: option.splits)

lemma loaded_set:
  "cert \<in> set (loaded w blocks)
     \<longleftrightarrow> (\<exists>block \<in> set blocks. wellFormedCertificate w block = Some cert)"
  by (induction blocks) (auto simp add: loaded_def List.map_filter_simps split: option.splits)

subsection \<open>The blocks of a stream\<close>

text \<open>A stream has at most one list of blocks.\<close>

lemma pemBlocks_deterministic:
  assumes "pemBlocks w pemCerts blocks" and "pemBlocks w pemCerts blocks'"
  shows "blocks = blocks'"
  using assms
proof (induction arbitrary: blocks' rule: pemBlocks.induct)
  case (pemBlocks_empty pemCerts)
  from pemBlocks_empty.prems pemBlocks_empty.hyps show ?case
    by cases simp_all
next
  case (pemBlocks_none pemCerts rest)
  from pemBlocks_none.prems pemBlocks_none.hyps show ?case
    by cases simp_all
next
  case (pemBlocks_block pemCerts block rest blocks)
  from pemBlocks_block.prems show ?case
  proof cases
    case pemBlocks_empty
    with pemBlocks_block.hyps show ?thesis by simp
  next
    case (pemBlocks_none rest')
    with pemBlocks_block.hyps show ?thesis by simp
  next
    case (pemBlocks_block block' rest' blocks'')
    with pemBlocks_block.hyps have "block' = block" "rest' = rest" by simp_all
    with pemBlocks_block.IH [of blocks''] pemBlocks_block(1,4) show ?thesis by simp
  qed
qed

text \<open>
  It has one whenever the decoder consumes input with every block it returns, as
  \<open>pem.Decode\<close> does (the rest it returns starts after the block's end line).
\<close>

lemma pemBlocks_exist:
  assumes consumes: "\<And>b block rest. Decode w b = (Some block, rest) \<Longrightarrow> length rest < length b"
  shows "\<exists>blocks. pemBlocks w pemCerts blocks"
proof (induction pemCerts rule: length_induct)
  case (1 pemCerts)
  show ?case
  proof (cases "pemCerts = []")
    case True
    then show ?thesis by (blast intro: pemBlocks_empty)
  next
    case False
    obtain found rest where d: "Decode w pemCerts = (found, rest)"
      by (cases "Decode w pemCerts")
    show ?thesis
    proof (cases found)
      case None
      with False d show ?thesis by (blast intro: pemBlocks_none)
    next
      case (Some block)
      with d consumes have "length rest < length pemCerts" by blast
      with 1 obtain blocks where "pemBlocks w rest blocks" by blast
      with False d Some show ?thesis by (blast intro: pemBlocks_block)
    qed
  qed
qed

subsection \<open>The loop of \<open>populateClientCaMap\<close>\<close>

lemma populateClientCaMap_loop_end:
  assumes "pemCerts = [] \<or> fst (Decode w pemCerts) = None"
  shows "populateClientCaMap_loop w config ok pemCerts = Some (Return (config, ok))"
  using assms
  by (subst populateClientCaMap_loop.simps) (auto split: prod.splits)

lemma populateClientCaMap_loop_skip:
  assumes "pemCerts \<noteq> []" and "Decode w pemCerts = (Some block, rest)"
    and "wellFormedCertificate w block = None"
  shows "populateClientCaMap_loop w config ok pemCerts = populateClientCaMap_loop w config ok rest"
  using assms
  by (subst populateClientCaMap_loop.simps)
    (auto simp add: wellFormedCertificate_def split: sum.splits if_splits)

lemma populateClientCaMap_loop_insert:
  assumes "pemCerts \<noteq> []" and "Decode w pemCerts = (Some block, rest)"
    and "wellFormedCertificate w block = Some cert"
    and "clientCasBySubjectKeyId config = Some registry"
  shows "populateClientCaMap_loop w config ok pemCerts
     = populateClientCaMap_loop w
         (config\<lparr>clientCasBySubjectKeyId := Some (registry(SubjectKeyId cert \<mapsto> cert))\<rparr>) True rest"
  using assms
  by (subst populateClientCaMap_loop.simps)
    (auto simp add: wellFormedCertificate_def split: sum.splits if_splits)

text \<open>On a registry that is nil, the first well-formed certificate block panics.\<close>

lemma populateClientCaMap_loop_nil_map:
  assumes "pemCerts \<noteq> []" and "Decode w pemCerts = (Some block, rest)"
    and "wellFormedCertificate w block = Some cert"
    and "clientCasBySubjectKeyId config = None"
  shows "populateClientCaMap_loop w config ok pemCerts = Some (Panic AssignmentToNilMap)"
  using assms
  by (subst populateClientCaMap_loop.simps)
    (auto simp add: wellFormedCertificate_def split: sum.splits if_splits)

lemma registry_update_same:
  "clientCasBySubjectKeyId config = Some registry
   \<Longrightarrow> config\<lparr>clientCasBySubjectKeyId := Some registry\<rparr> = config"
  by (cases config) auto

lemma populateClientCaMap_loop_blocks:
  assumes "pemBlocks w pemCerts blocks"
    and "clientCasBySubjectKeyId config = Some registry"
  shows "populateClientCaMap_loop w config ok pemCerts
     = Some (Return (config\<lparr>clientCasBySubjectKeyId := Some (inserted registry (loaded w blocks))\<rparr>,
                     ok \<or> loaded w blocks \<noteq> []))"
  using assms
proof (induction arbitrary: config registry ok rule: pemBlocks.induct)
  case (pemBlocks_empty pemCerts)
  then show ?case
    by (simp add: populateClientCaMap_loop_end loaded_def List.map_filter_simps inserted_Nil
        registry_update_same)
next
  case (pemBlocks_none pemCerts rest)
  then show ?case
    by (simp add: populateClientCaMap_loop_end loaded_def List.map_filter_simps inserted_Nil
        registry_update_same)
next
  case (pemBlocks_block pemCerts block rest blocks)
  show ?case
  proof (cases "wellFormedCertificate w block")
    case None
    with pemBlocks_block.hyps
    have "populateClientCaMap_loop w config ok pemCerts = populateClientCaMap_loop w config ok rest"
      by (intro populateClientCaMap_loop_skip)
    with pemBlocks_block.IH [OF pemBlocks_block.prems, of ok] None show ?thesis
      by (simp add: loaded_Cons)
  next
    case (Some cert)
    let ?config = "config\<lparr>clientCasBySubjectKeyId := Some (registry(SubjectKeyId cert \<mapsto> cert))\<rparr>"
    from pemBlocks_block.hyps Some pemBlocks_block.prems
    have "populateClientCaMap_loop w config ok pemCerts = populateClientCaMap_loop w ?config True rest"
      by (intro populateClientCaMap_loop_insert)
    also have "\<dots> = Some (Return
        (?config\<lparr>clientCasBySubjectKeyId :=
            Some (inserted (registry(SubjectKeyId cert \<mapsto> cert)) (loaded w blocks))\<rparr>,
         True \<or> loaded w blocks \<noteq> []))"
      by (rule pemBlocks_block.IH) (simp del: fun_upd_apply)
    also have "?config\<lparr>clientCasBySubjectKeyId :=
            Some (inserted (registry(SubjectKeyId cert \<mapsto> cert)) (loaded w blocks))\<rparr>
        = config\<lparr>clientCasBySubjectKeyId := Some (inserted registry (loaded w (block # blocks)))\<rparr>"
      using Some by (simp add: loaded_Cons inserted_Cons fun_upd_def)
    also have "(True \<or> loaded w blocks \<noteq> []) = (ok \<or> loaded w (block # blocks) \<noteq> [])"
      using Some by (simp add: loaded_Cons)
    finally show ?thesis .
  qed
qed

subsection \<open>\<open>populateClientCaMap\<close>\<close>

lemma loaded_empty_iff:
  "(loaded w blocks = []) = (\<forall>block \<in> set blocks. wellFormedCertificate w block = None)"
proof (induction blocks)
  case Nil
  show ?case by (simp add: loaded_def List.map_filter_simps)
next
  case (Cons block blocks)
  then show ?case
    by (cases "wellFormedCertificate w block") (simp_all add: loaded_Cons)
qed


text \<open>A stream without a well-formed certificate block leaves the configuration as it is.\<close>

lemma populateClientCaMap_loop_none_loaded:
  assumes "pemBlocks w pemCerts blocks" and "loaded w blocks = []"
  shows "populateClientCaMap_loop w config ok pemCerts = Some (Return (config, ok))"
  using assms
proof (induction rule: pemBlocks.induct)
  case (pemBlocks_empty pemCerts)
  then show ?case by (simp add: populateClientCaMap_loop_end)
next
  case (pemBlocks_none pemCerts rest)
  then show ?case by (simp add: populateClientCaMap_loop_end)
next
  case (pemBlocks_block pemCerts block rest blocks)
  from pemBlocks_block.prems have none: "wellFormedCertificate w block = None"
    and rest: "loaded w blocks = []"
    by (simp_all add: loaded_Cons split: option.splits)
  from pemBlocks_block.hyps(1,2) none
  have "populateClientCaMap_loop w config ok pemCerts = populateClientCaMap_loop w config ok rest"
    by (rule populateClientCaMap_loop_skip)
  with pemBlocks_block.IH [OF rest] show ?case by simp
qed

text \<open>
  On a registry that is nil, a stream with a well-formed certificate block panics at the
  first such block: nothing is inserted and nothing is reported.
\<close>

lemma populateClientCaMap_loop_nil_registry:
  assumes "pemBlocks w pemCerts blocks" and "clientCasBySubjectKeyId config = None"
    and "loaded w blocks \<noteq> []"
  shows "populateClientCaMap_loop w config ok pemCerts = Some (Panic AssignmentToNilMap)"
  using assms
proof (induction rule: pemBlocks.induct)
  case (pemBlocks_empty pemCerts)
  then show ?case by (simp add: loaded_def List.map_filter_simps)
next
  case (pemBlocks_none pemCerts rest)
  then show ?case by (simp add: loaded_def List.map_filter_simps)
next
  case (pemBlocks_block pemCerts block rest blocks)
  show ?case
  proof (cases "wellFormedCertificate w block")
    case None
    with pemBlocks_block.hyps(1,2)
    have "populateClientCaMap_loop w config ok pemCerts = populateClientCaMap_loop w config ok rest"
      by (rule populateClientCaMap_loop_skip)
    moreover from None pemBlocks_block.prems have "loaded w blocks \<noteq> []"
      by (simp add: loaded_Cons)
    ultimately show ?thesis
      using pemBlocks_block.IH pemBlocks_block.prems(1) by simp
  next
    case (Some cert)
    with pemBlocks_block.hyps(1,2) pemBlocks_block.prems(1) show ?thesis
      by (intro populateClientCaMap_loop_nil_map)
  qed
qed

text \<open>
  C9, amended. For every PEM byte stream with blocks \<open>blocks\<close>, loaded into a
  configuration whose registry map is not nil, or is nil while no block of the stream is a
  well-formed certificate block: \<open>populateClientCaMap\<close> returns, and it reports success
  exactly when some block is a well-formed certificate block. The registry it leaves is nil
  exactly when it was, and in it
  \<^item> a well-formed certificate stands under its Subject Key Identifier, unless a later
    well-formed certificate of the stream has the same identifier (the later one
    overwrites it);
  \<^item> the Subject Key Identifier of every well-formed certificate of the stream is bound
    to a well-formed certificate of the stream with that identifier;
  \<^item> every other key is as it was: blocks of another type, with headers or with bytes
    that do not parse leave nothing, and the scan goes on after them.
\<close>

theorem populateClientCaMap_loads:
  assumes "pemBlocks w pemCerts blocks"
    and "clientCasBySubjectKeyId config = None
           \<longrightarrow> (\<forall>block \<in> set blocks. wellFormedCertificate w block = None)"
  shows "\<exists>registry'.
           populateClientCaMap w config pemCerts
             = Some (Return (config\<lparr>clientCasBySubjectKeyId := registry'\<rparr>,
                             \<exists>block \<in> set blocks. wellFormedCertificate w block \<noteq> None))
         \<and> (registry' = None) = (clientCasBySubjectKeyId config = None)
         \<and> (\<forall>before block after cert.
               blocks = before @ block # after
               \<and> wellFormedCertificate w block = Some cert
               \<and> (\<forall>b \<in> set after. \<forall>c. wellFormedCertificate w b = Some c
                     \<longrightarrow> SubjectKeyId c \<noteq> SubjectKeyId cert)
               \<longrightarrow> index registry' (SubjectKeyId cert) = Some cert)
         \<and> (\<forall>block \<in> set blocks. \<forall>cert. wellFormedCertificate w block = Some cert
               \<longrightarrow> (\<exists>b \<in> set blocks. \<exists>c. wellFormedCertificate w b = Some c
                      \<and> SubjectKeyId c = SubjectKeyId cert
                      \<and> index registry' (SubjectKeyId cert) = Some c))
         \<and> (\<forall>k. (\<forall>block \<in> set blocks. \<forall>cert. wellFormedCertificate w block = Some cert
                     \<longrightarrow> SubjectKeyId cert \<noteq> k)
               \<longrightarrow> index registry' k = index (clientCasBySubjectKeyId config) k)"
proof (cases "clientCasBySubjectKeyId config")
  case None
  with assms(2) have none: "\<forall>block \<in> set blocks. wellFormedCertificate w block = None"
    by simp
  then have "loaded w blocks = []"
    by (simp add: loaded_empty_iff)
  from populateClientCaMap_loop_none_loaded [OF assms(1) this, of config False]
  have run: "populateClientCaMap w config pemCerts
      = Some (Return (config\<lparr>clientCasBySubjectKeyId := None\<rparr>,
                      \<exists>block \<in> set blocks. wellFormedCertificate w block \<noteq> None))"
    using None none by (simp add: populateClientCaMap_def)
  show ?thesis
  proof (intro exI [of _ None] conjI allI impI ballI)
    show "populateClientCaMap w config pemCerts
      = Some (Return (config\<lparr>clientCasBySubjectKeyId := None\<rparr>,
                      \<exists>block \<in> set blocks. wellFormedCertificate w block \<noteq> None))"
      by (rule run)
    show "(None = (None :: (bytes, Certificate) gomap)) = (clientCasBySubjectKeyId config = None)"
      using None by simp
  next
    fix before block after cert
    assume "blocks = before @ block # after
               \<and> wellFormedCertificate w block = Some cert
               \<and> (\<forall>b \<in> set after. \<forall>c. wellFormedCertificate w b = Some c
                     \<longrightarrow> SubjectKeyId c \<noteq> SubjectKeyId cert)"
    with none show "index None (SubjectKeyId cert) = Some cert"
      by auto
  next
    fix block cert
    assume "block \<in> set blocks" and "wellFormedCertificate w block = Some cert"
    with none show "\<exists>b \<in> set blocks. \<exists>c. wellFormedCertificate w b = Some c
          \<and> SubjectKeyId c = SubjectKeyId cert
          \<and> index None (SubjectKeyId cert) = Some c"
      by auto
  next
    fix k
    show "index None k = index (clientCasBySubjectKeyId config) k"
      using None by simp
  qed
next
  case (Some registry)
  let ?registry' = "inserted registry (loaded w blocks)"
  show ?thesis
  proof (intro exI [of _ "Some ?registry'"] conjI allI impI ballI)
    have "(loaded w blocks \<noteq> []) = (\<exists>block \<in> set blocks. wellFormedCertificate w block \<noteq> None)"
      by (simp add: loaded_empty_iff)
    with populateClientCaMap_loop_blocks [OF assms(1) Some, of False]
    show "populateClientCaMap w config pemCerts
        = Some (Return (config\<lparr>clientCasBySubjectKeyId := Some ?registry'\<rparr>,
                        \<exists>block \<in> set blocks. wellFormedCertificate w block \<noteq> None))"
      by (simp add: populateClientCaMap_def)
    show "(Some ?registry' = None) = (clientCasBySubjectKeyId config = None)"
      using Some by simp
  next
    fix before block after cert
    assume a: "blocks = before @ block # after
                 \<and> wellFormedCertificate w block = Some cert
                 \<and> (\<forall>b \<in> set after. \<forall>c. wellFormedCertificate w b = Some c
                       \<longrightarrow> SubjectKeyId c \<noteq> SubjectKeyId cert)"
    then have "loaded w blocks = loaded w before @ cert # loaded w after"
      by (simp add: loaded_append loaded_Cons)
    moreover from a have "\<forall>c \<in> set (loaded w after). SubjectKeyId c \<noteq> SubjectKeyId cert"
      by (auto simp add: loaded_set)
    ultimately show "index (Some ?registry') (SubjectKeyId cert) = Some cert"
      by (simp add: inserted_last index_def)
  next
    fix block cert
    assume "block \<in> set blocks" and "wellFormedCertificate w block = Some cert"
    then have "cert \<in> set (loaded w blocks)"
      by (auto simp add: loaded_set)
    from inserted_bound [OF this, of registry]
    show "\<exists>b \<in> set blocks. \<exists>c. wellFormedCertificate w b = Some c
            \<and> SubjectKeyId c = SubjectKeyId cert
            \<and> index (Some ?registry') (SubjectKeyId cert) = Some c"
      by (auto simp add: loaded_set index_def)
  next
    fix k
    assume none: "\<forall>block \<in> set blocks. \<forall>cert. wellFormedCertificate w block = Some cert
              \<longrightarrow> SubjectKeyId cert \<noteq> k"
    have "\<forall>c \<in> set (loaded w blocks). SubjectKeyId c \<noteq> k"
    proof
      fix c
      assume "c \<in> set (loaded w blocks)"
      then obtain block where "block \<in> set blocks" "wellFormedCertificate w block = Some c"
        unfolding loaded_set by blast
      with none show "SubjectKeyId c \<noteq> k" by blast
    qed
    then have "inserted registry (loaded w blocks) k = registry k"
      by (rule inserted_other)
    then show "index (Some ?registry') k = index (clientCasBySubjectKeyId config) k"
      using Some by (simp add: index_def)
  qed
qed

subsection \<open>The test world's streams\<close>

lemma Decode_lib0:
  "Decode lib0 (c # rest) =
     (case pemOf c of None \<Rightarrow> (None, c # rest) | Some block \<Rightarrow> (Some block, rest))"
  by (simp add: lib0_def)

lemma wellFormed_lib0:
  "wellFormedCertificate lib0 keyBlock = None"
  "wellFormedCertificate lib0 certBlock = Some caCert0"
  "wellFormedCertificate lib0 junkBlock = None"
  "wellFormedCertificate lib0 headerBlock = None"
  "wellFormedCertificate lib0 renewedBlock = Some caCert1"
  by (simp_all add: wellFormedCertificate_def lib0_def keyBlock_def certBlock_def junkBlock_def
      headerBlock_def renewedBlock_def)

lemma pemBlocks_lib0_stream:
  "pemBlocks lib0 ''KCXHD!'' [keyBlock, certBlock, junkBlock, headerBlock, renewedBlock]"
  by (rule pemBlocks_block [where rest = "''CXHD!''"] pemBlocks_block [where rest = "''XHD!''"]
      pemBlocks_block [where rest = "''HD!''"] pemBlocks_block [where rest = "''D!''"]
      pemBlocks_block [where rest = "''!''"] pemBlocks_none [where rest = "''!''"]
    | simp add: Decode_lib0 pemOf_def)+

lemma pemBlocks_ca_pem: "pemBlocks lib0 ''KC'' [keyBlock, certBlock]"
  by (rule pemBlocks_block [where rest = "''C''"] pemBlocks_block [where rest = "[]"]
      pemBlocks_empty | simp add: Decode_lib0 pemOf_def)+

lemma pemBlocks_no_certificate: "pemBlocks lib0 ''KXH!'' [keyBlock, junkBlock, headerBlock]"
  by (rule pemBlocks_block [where rest = "''XH!''"] pemBlocks_block [where rest = "''H!''"]
      pemBlocks_block [where rest = "''!''"] pemBlocks_none [where rest = "''!''"]
    | simp add: Decode_lib0 pemOf_def)+

theorem populateClientCaMap_loads_witness:
  "pemBlocks lib0 ''KCXHD!'' [keyBlock, certBlock, junkBlock, headerBlock, renewedBlock]
   \<and> clientCasBySubjectKeyId (snd (Init config0)) = Some Map.empty
   \<and> (\<exists>registry'.
         populateClientCaMap lib0 (snd (Init config0)) ''KCXHD!''
           = Some (Return ((snd (Init config0))\<lparr>clientCasBySubjectKeyId := registry'\<rparr>, True))
         \<and> index registry' ''ski-1'' = Some caCert1
         \<and> index registry' ''ski-2'' = None)
   \<and> pemBlocks lib0 ''KXH!'' [keyBlock, junkBlock, headerBlock]
   \<and> clientCasBySubjectKeyId config0 = None
   \<and> populateClientCaMap lib0 config0 ''KXH!'' = Some (Return (config0, False))"
proof -
  let ?blocks = "[keyBlock, certBlock, junkBlock, headerBlock, renewedBlock]"
  have reg: "clientCasBySubjectKeyId (snd (Init config0)) = Some Map.empty"
    by (simp add: Init_config0)
  then have pre: "clientCasBySubjectKeyId (snd (Init config0)) = None
      \<longrightarrow> (\<forall>block \<in> set ?blocks. wellFormedCertificate lib0 block = None)"
    by simp
  from populateClientCaMap_loads [OF pemBlocks_lib0_stream pre]
  obtain registry' where
    run: "populateClientCaMap lib0 (snd (Init config0)) ''KCXHD!''
           = Some (Return ((snd (Init config0))\<lparr>clientCasBySubjectKeyId := registry'\<rparr>,
                           \<exists>block \<in> set ?blocks. wellFormedCertificate lib0 block \<noteq> None))"
    and last: "\<forall>before block after cert.
               ?blocks = before @ block # after
               \<and> wellFormedCertificate lib0 block = Some cert
               \<and> (\<forall>b \<in> set after. \<forall>c. wellFormedCertificate lib0 b = Some c
                     \<longrightarrow> SubjectKeyId c \<noteq> SubjectKeyId cert)
               \<longrightarrow> index registry' (SubjectKeyId cert) = Some cert"
    and other: "\<forall>k. (\<forall>block \<in> set ?blocks. \<forall>cert. wellFormedCertificate lib0 block = Some cert
                     \<longrightarrow> SubjectKeyId cert \<noteq> k)
               \<longrightarrow> index registry' k = index (clientCasBySubjectKeyId (snd (Init config0))) k"
    by (elim exE conjE) (rule that, assumption+)
  have flag: "(\<exists>block \<in> set ?blocks. wellFormedCertificate lib0 block \<noteq> None) = True"
    by (simp add: wellFormed_lib0)
  have "?blocks = [keyBlock, certBlock, junkBlock, headerBlock] @ renewedBlock # []
      \<and> wellFormedCertificate lib0 renewedBlock = Some caCert1
      \<and> (\<forall>b \<in> set []. \<forall>c. wellFormedCertificate lib0 b = Some c
            \<longrightarrow> SubjectKeyId c \<noteq> SubjectKeyId caCert1)"
    by (simp add: wellFormed_lib0)
  with last have "index registry' (SubjectKeyId caCert1) = Some caCert1"
    by blast
  then have one: "index registry' ''ski-1'' = Some caCert1"
    by (simp add: caCert1_def)
  have "\<forall>block \<in> set ?blocks. \<forall>cert. wellFormedCertificate lib0 block = Some cert
      \<longrightarrow> SubjectKeyId cert \<noteq> ''ski-2''"
    by (simp add: wellFormed_lib0 caCert0_def caCert1_def)
  with other have "index registry' ''ski-2'' = index (clientCasBySubjectKeyId (snd (Init config0))) ''ski-2''"
    by blast
  then have two: "index registry' ''ski-2'' = None"
    by (simp add: reg index_def)
  from run flag have first: "populateClientCaMap lib0 (snd (Init config0)) ''KCXHD!''
      = Some (Return ((snd (Init config0))\<lparr>clientCasBySubjectKeyId := registry'\<rparr>, True))"
    by (simp only:)
  let ?none = "[keyBlock, junkBlock, headerBlock]"
  have nil: "clientCasBySubjectKeyId config0 = None"
    by (simp add: config0_def)
  have pre0: "clientCasBySubjectKeyId config0 = None
      \<longrightarrow> (\<forall>block \<in> set ?none. wellFormedCertificate lib0 block = None)"
    by (simp add: wellFormed_lib0)
  from populateClientCaMap_loads [OF pemBlocks_no_certificate pre0]
  obtain registry0 where
    run0: "populateClientCaMap lib0 config0 ''KXH!''
           = Some (Return (config0\<lparr>clientCasBySubjectKeyId := registry0\<rparr>,
                           \<exists>block \<in> set ?none. wellFormedCertificate lib0 block \<noteq> None))"
    and nil0: "(registry0 = None) = (clientCasBySubjectKeyId config0 = None)"
    by (elim exE conjE) (rule that, assumption+)
  from nil0 nil have r0: "registry0 = None"
    by simp
  have same: "config0\<lparr>clientCasBySubjectKeyId := None\<rparr> = config0"
    by (simp add: config0_def)
  have flag0: "(\<exists>block \<in> set ?none. wellFormedCertificate lib0 block \<noteq> None) = False"
    by (simp add: wellFormed_lib0)
  from run0 have second: "populateClientCaMap lib0 config0 ''KXH!'' = Some (Return (config0, False))"
    unfolding r0 same flag0 .
  from first one two
  have "\<exists>registry'.
         populateClientCaMap lib0 (snd (Init config0)) ''KCXHD!''
           = Some (Return ((snd (Init config0))\<lparr>clientCasBySubjectKeyId := registry'\<rparr>, True))
         \<and> index registry' ''ski-1'' = Some caCert1
         \<and> index registry' ''ski-2'' = None"
    by (intro exI [of _ registry'] conjI)
  with pemBlocks_lib0_stream reg pemBlocks_no_certificate nil second
  show ?thesis
    by (intro conjI)
qed

text \<open>
  C9, as stated, fails on a configuration whose registry map is nil, as it is in the zero
  value of \<open>Config\<close> before \<open>Init\<close> or \<open>SetupCrls\<close> has run: the stream \<open>KC\<close> has a
  well-formed certificate block, and \<open>populateClientCaMap\<close> panics at line 303 instead of
  inserting the certificate and reporting success; so does \<open>SetupTls\<close> with the client
  CA file that holds this stream.
\<close>

theorem populateClientCaMap_nil_registry_panics:
  "pemBlocks lib0 ''KC'' [keyBlock, certBlock]
   \<and> wellFormedCertificate lib0 certBlock = Some caCert0
   \<and> clientCasBySubjectKeyId config0 = None
   \<and> populateClientCaMap lib0 config0 ''KC'' = Some (Panic AssignmentToNilMap)
   \<and> SetupTls lib0 config0 ''server.pem'' ''server.key'' [''ca.pem'']
       = Some (Panic AssignmentToNilMap)"
proof (intro conjI)
  show "pemBlocks lib0 ''KC'' [keyBlock, certBlock]"
    by (rule pemBlocks_ca_pem)
  show "wellFormedCertificate lib0 certBlock = Some caCert0"
    by (rule wellFormed_lib0)
  show nil: "clientCasBySubjectKeyId config0 = None"
    by (simp add: config0_def)
  have "loaded lib0 [keyBlock, certBlock] \<noteq> []"
    by (simp add: loaded_Cons wellFormed_lib0)
  from populateClientCaMap_loop_nil_registry [OF pemBlocks_ca_pem nil this, of False]
  show run: "populateClientCaMap lib0 config0 ''KC'' = Some (Panic AssignmentToNilMap)"
    by (simp add: populateClientCaMap_def)
  have "ReadFile lib0 ''ca.pem'' = (''KC'', None)"
    and "LoadX509KeyPair lib0 ''server.pem'' ''server.key'' = Inr ''keypair''"
    by (simp_all add: lib0_def)
  with run show "SetupTls lib0 config0 ''server.pem'' ''server.key'' [''ca.pem'']
       = Some (Panic AssignmentToNilMap)"
    by (simp add: SetupTls_def addCertsFromFile_def)
qed

text \<open>
  The client CA file of the test world, loaded into a registry that is empty: the key
  block is passed over and the certificate is registered under its key id.
\<close>

lemma populateClientCaMap_ca_pem:
  assumes "clientCasBySubjectKeyId config = Some Map.empty"
  shows "populateClientCaMap lib0 config ''KC''
     = Some (Return (config\<lparr>clientCasBySubjectKeyId := Some [''ski-1'' \<mapsto> caCert0]\<rparr>, True))"
  using populateClientCaMap_loop_blocks [OF pemBlocks_ca_pem assms, of False]
  by (simp add: populateClientCaMap_def loaded_Cons wellFormed_lib0 loaded_def
      List.map_filter_simps inserted_Cons inserted_Nil caCert0_def)

lemma SetupTls_ca_pem:
  assumes "clientCasBySubjectKeyId config = Some Map.empty"
  shows "SetupTls lib0 config ''server.pem'' ''server.key'' [''ca.pem'']
     = Some (Return (None,
         config\<lparr>clientCasBySubjectKeyId := Some [''ski-1'' \<mapsto> caCert0],
                 TlsConfig := Some \<lparr>Certificates = [''keypair''],
                                     ClientAuth = VerifyClientCertIfGiven,
                                     ClientCAs = Some [caCert0]\<rparr>\<rparr>))"
proof -
  have rd: "ReadFile lib0 ''ca.pem'' = (''KC'', None)"
    by (simp add: lib0_def)
  have app: "AppendCertsFromPEM lib0 [] ''KC'' = ([caCert0], True)"
    by (simp add: lib0_def List.map_filter_simps)
  have kp: "LoadX509KeyPair lib0 ''server.pem'' ''server.key'' = Inr ''keypair''"
    by (simp add: lib0_def)
  have "addCertsFromFile lib0 config [] ''ca.pem''
      = Some (Return (None, config\<lparr>clientCasBySubjectKeyId := Some [''ski-1'' \<mapsto> caCert0]\<rparr>,
                      [caCert0]))"
    by (simp add: addCertsFromFile_def rd populateClientCaMap_ca_pem [OF assms] app)
  then show ?thesis
    by (simp add: SetupTls_def kp NewCertPool_def)
qed

section \<open>The invariant of the revocation table\<close>

text \<open>
  C4. The claim: in every state the operations leave, a list is in the table if and only
  if its Authority Key Identifier maps to an authority of the registry and that authority
  verifies its signature. The code on the sequence \<open>Init\<close>, \<open>SetupTls\<close> with the client
  CA file, \<open>SetupCrls\<close> with the list of that authority: when \<open>SetupCrls\<close> is called
  the issuer id of the list maps to the authority and the authority verifies the
  signature, and \<open>SetupCrls\<close> returns nil with an empty table and an empty registry.
  \<open>SetupTls\<close> once more registers the authority again, and the state has the authority
  in the registry and still no list under its key id.
\<close>

theorem reload_leaves_out_verified_list:
  "SetupTls lib0 (snd (Init config0)) ''server.pem'' ''server.key'' [''ca.pem'']
     = Some (Return (None, configCA))
   \<and> index (clientCasBySubjectKeyId configCA) (crlIssuerId lib0 (Extensions (TBSCertList crl0)))
     = Some caCert0
   \<and> CheckCRLSignature lib0 caCert0 crl0 = None
   \<and> SetupCrls lib0 configCA [''ca.crl''] = Return (None, configReloaded)
   \<and> CrlByAuthorityKeyId configReloaded = Some Map.empty
   \<and> clientCasBySubjectKeyId configReloaded = Some Map.empty
   \<and> SetupTls lib0 configReloaded ''server.pem'' ''server.key'' [''ca.pem'']
     = Some (Return (None, configCA))
   \<and> index (CrlByAuthorityKeyId configCA) (crlIssuerId lib0 (Extensions (TBSCertList crl0)))
     = None"
proof (intro conjI)
  have "clientCasBySubjectKeyId (snd (Init config0)) = Some Map.empty"
    by (simp add: Init_config0)
  from SetupTls_ca_pem [OF this]
  show "SetupTls lib0 (snd (Init config0)) ''server.pem'' ''server.key'' [''ca.pem'']
     = Some (Return (None, configCA))"
    by (simp add: Init_config0 configCA_def)
  show "index (clientCasBySubjectKeyId configCA) (crlIssuerId lib0 (Extensions (TBSCertList crl0)))
     = Some caCert0"
    by (simp add: crl0_issuer configCA_def index_def)
  show "CheckCRLSignature lib0 caCert0 crl0 = None"
    by (simp add: lib0_def caCert0_def crl0_def)
  show "SetupCrls lib0 configCA [''ca.crl''] = Return (None, configReloaded)"
    using lib0_ca_crl by (simp add: SetupCrls_def crl0_issuer index_def configReloaded_def)
  show "CrlByAuthorityKeyId configReloaded = Some Map.empty"
    and reg: "clientCasBySubjectKeyId configReloaded = Some Map.empty"
    by (simp_all add: configReloaded_def)
  from SetupTls_ca_pem [OF reg]
  show "SetupTls lib0 configReloaded ''server.pem'' ''server.key'' [''ca.pem'']
     = Some (Return (None, configCA))"
    by (simp add: configReloaded_def configCA_def)
  show "index (CrlByAuthorityKeyId configCA) (crlIssuerId lib0 (Extensions (TBSCertList crl0)))
     = None"
    by (simp add: crl0_issuer configCA_def index_def)
qed

end
